theory Spec2Isabelle
  imports Complex_Main
begin

section \<open>Bank term deposit predictor (app.py)\<close>

text \<open>
  The program is one Python script, \<^verbatim>\<open>app.py\<close>: \<^verbatim>\<open>load_model\<close> reads the
  trained pipeline, \<^verbatim>\<open>get_user_input\<close> reads the sidebar widgets and builds a one-row
  DataFrame with three engineered columns, and \<^verbatim>\<open>main\<close> renders the page and, when
  the button is pressed, asks the pipeline for a label and a probability and shows a
  recommendation.

  Python values are modelled as follows. An \<^verbatim>\<open>int\<close> is an \<open>int\<close>, a \<^verbatim>\<open>str\<close> is a
  \<open>string\<close>. A \<^verbatim>\<open>float\<close> is a \<open>real\<close>: the script never computes with floats, it
  only stores them and compares a probability with the literals \<^verbatim>\<open>0.7\<close> and
  \<^verbatim>\<open>0.4\<close>, and a literal is read as the decimal it is written as. What the pipeline
  returns as a probability is a \<open>number\<close>, which also has the values that Streamlit
  refuses to draw. An exception is a value of type \<open>exn\<close>, and a computation that may
  raise returns \<open>exn + 'a\<close>.
\<close>

subsection \<open>Exceptions\<close>

text \<open>
  The exceptions are the instances of Python's \<^verbatim>\<open>Exception\<close> that the script can meet:
  a missing column, a comparison between a string and a number, and whatever the
  deserialiser, the pipeline or Streamlit raises, kept with its message. \<open>str_exn\<close> is
  \<^verbatim>\<open>str(e)\<close>, which the f-strings of the script print.
\<close>

datatype exn = KeyError string | TypeError string | Raised string

fun str_exn :: "exn \<Rightarrow> string" where
  "str_exn (KeyError k) = [CHR 0x27] @ k @ [CHR 0x27]"
| "str_exn (TypeError m) = m"
| "str_exn (Raised m) = m"

subsection \<open>The one-row DataFrame\<close>

text \<open>
  A cell holds an integer, a string or a float. The frame has one row, so it is the list
  of its columns in order, each with its cell.
\<close>

datatype cell = IntC int | StrC string | FloatC real

type_synonym frame = "(string \<times> cell) list"

text \<open>\<^verbatim>\<open>df[k]\<close>: the column \<open>k\<close>, or KeyError.\<close>

definition col :: "frame \<Rightarrow> string \<Rightarrow> exn + cell" where
  "col df k = (case map_of df k of None \<Rightarrow> Inl (KeyError k) | Some c \<Rightarrow> Inr c)"

text \<open>
  \<^verbatim>\<open>df[k] = v\<close>: an existing column is overwritten where it stands, a new one is
  appended after the last column.
\<close>

fun set_col :: "frame \<Rightarrow> string \<Rightarrow> cell \<Rightarrow> frame" where
  "set_col [] k v = [(k, v)]"
| "set_col ((k', c) # df) k v = (if k' = k then (k, v) # df else (k', c) # set_col df k v)"

text \<open>\<^verbatim>\<open>.astype(int)\<close> on a boolean column.\<close>

definition astype_int :: "bool \<Rightarrow> cell" where
  "astype_int b = IntC (if b then 1 else 0)"

text \<open>
  The three element-wise operations of lines 127 to 131. \<^verbatim>\<open>!= 999\<close> and
  \<^verbatim>\<open>== 'success'\<close> compare any cell (a cell of another type is simply different);
  the lambda \<^verbatim>\<open>1 if x < 5 else 0\<close> raises TypeError on a string.
\<close>

fun ne_999 :: "cell \<Rightarrow> bool" where
  "ne_999 (IntC n) = (n \<noteq> 999)"
| "ne_999 (FloatC r) = (r \<noteq> 999)"
| "ne_999 (StrC s) = True"

fun eq_success :: "cell \<Rightarrow> bool" where
  "eq_success (StrC s) = (s = ''success'')"
| "eq_success (IntC n) = False"
| "eq_success (FloatC r) = False"

fun campaign_lambda :: "cell \<Rightarrow> exn + cell" where
  "campaign_lambda (IntC x) = Inr (IntC (if x < 5 then 1 else 0))"
| "campaign_lambda (FloatC x) = Inr (IntC (if x < 5 then 1 else 0))"
| "campaign_lambda (StrC s) = Inl (TypeError ''< not supported between str and int'')"

subsection \<open>The sidebar widgets and \<^verbatim>\<open>get_user_input\<close>\<close>

text \<open>
  \<^verbatim>\<open>get_user_input\<close> reads nineteen Streamlit widgets. What the widgets return is
  the input of the model: a record with one field per widget, named as the local
  variable that receives it (\<^verbatim>\<open>default\<close> is \<open>default_credit\<close>, the name being taken
  in HOL).
\<close>

record widgets =
  age :: int
  job :: string
  marital :: string
  education :: string
  default_credit :: string
  housing :: string
  loan :: string
  contact :: string
  month :: string
  day_of_week :: string
  campaign :: int
  pdays :: int
  previous :: int
  poutcome :: string
  emp_var_rate :: real
  cons_price_idx :: real
  cons_conf_idx :: real
  euribor3m :: real
  nr_employed :: real

text \<open>The dictionary \<^verbatim>\<open>data\<close> of lines 101 to 121, in insertion order.\<close>

definition data :: "widgets \<Rightarrow> frame" where
  "data w =
    [(''age'', IntC (age w)),
     (''job'', StrC (job w)),
     (''marital'', StrC (marital w)),
     (''education'', StrC (education w)),
     (''default'', StrC (default_credit w)),
     (''housing'', StrC (housing w)),
     (''loan'', StrC (loan w)),
     (''contact'', StrC (contact w)),
     (''month'', StrC (month w)),
     (''day_of_week'', StrC (day_of_week w)),
     (''campaign'', IntC (campaign w)),
     (''pdays'', IntC (pdays w)),
     (''previous'', IntC (previous w)),
     (''poutcome'', StrC (poutcome w)),
     (''emp.var.rate'', FloatC (emp_var_rate w)),
     (''cons.price.idx'', FloatC (cons_price_idx w)),
     (''cons.conf.idx'', FloatC (cons_conf_idx w)),
     (''euribor3m'', FloatC (euribor3m w)),
     (''nr.employed'', FloatC (nr_employed w))]"

text \<open>
  Lines 124 to 133: the frame of the dictionary, then the three engineered columns, each
  read from a column of the frame and stored under its name. A failing read is the
  exception the Python raises there.
\<close>

definition get_user_input :: "widgets \<Rightarrow> exn + frame" where
  "get_user_input w =
    (let input_df = data w in
     (case col input_df ''pdays'' of
        Inl e \<Rightarrow> Inl e
      | Inr p \<Rightarrow>
         (let input_df = set_col input_df ''was_previously_contacted'' (astype_int (ne_999 p)) in
          (case col input_df ''campaign'' of
             Inl e \<Rightarrow> Inl e
           | Inr c \<Rightarrow>
              (case campaign_lambda c of
                 Inl e \<Rightarrow> Inl e
               | Inr s \<Rightarrow>
                  (let input_df = set_col input_df ''campaign_successful'' s in
                   (case col input_df ''poutcome'' of
                      Inl e \<Rightarrow> Inl e
                    | Inr q \<Rightarrow>
                       Inr (set_col input_df ''poutcome_success''
                             (astype_int (eq_success q))))))))))"

text \<open>
  The bounds the widgets enforce (lines 54 to 98): the range of each slider and number
  input, and the choice list of each select box.
\<close>

definition job_choices :: "string list" where
  "job_choices =
    [''admin.'', ''blue-collar'', ''entrepreneur'', ''housemaid'', ''management'',
     ''retired'', ''self-employed'', ''services'', ''student'', ''technician'',
     ''unemployed'', ''unknown'']"

definition marital_choices :: "string list" where
  "marital_choices = [''married'', ''single'', ''divorced'', ''unknown'']"

definition education_choices :: "string list" where
  "education_choices =
    [''basic.4y'', ''basic.6y'', ''basic.9y'', ''high.school'', ''illiterate'',
     ''professional.course'', ''university.degree'', ''unknown'']"

definition yes_no_choices :: "string list" where
  "yes_no_choices = [''no'', ''yes'', ''unknown'']"

definition contact_choices :: "string list" where
  "contact_choices = [''cellular'', ''telephone'']"

definition month_choices :: "string list" where
  "month_choices =
    [''jan'', ''feb'', ''mar'', ''apr'', ''may'', ''jun'',
     ''jul'', ''aug'', ''sep'', ''oct'', ''nov'', ''dec'']"

definition day_of_week_choices :: "string list" where
  "day_of_week_choices = [''mon'', ''tue'', ''wed'', ''thu'', ''fri'']"

definition poutcome_choices :: "string list" where
  "poutcome_choices = [''nonexistent'', ''failure'', ''success'']"

definition in_bounds :: "widgets \<Rightarrow> bool" where
  "in_bounds w \<longleftrightarrow>
     18 \<le> age w \<and> age w \<le> 95 \<and>
     job w \<in> set job_choices \<and>
     marital w \<in> set marital_choices \<and>
     education w \<in> set education_choices \<and>
     default_credit w \<in> set yes_no_choices \<and>
     housing w \<in> set yes_no_choices \<and>
     loan w \<in> set yes_no_choices \<and>
     contact w \<in> set contact_choices \<and>
     month w \<in> set month_choices \<and>
     day_of_week w \<in> set day_of_week_choices \<and>
     1 \<le> campaign w \<and> campaign w \<le> 50 \<and>
     0 \<le> pdays w \<and> pdays w \<le> 999 \<and>
     0 \<le> previous w \<and> previous w \<le> 10 \<and>
     poutcome w \<in> set poutcome_choices \<and>
     - 5 \<le> emp_var_rate w \<and> emp_var_rate w \<le> 5 \<and>
     90 \<le> cons_price_idx w \<and> cons_price_idx w \<le> 100 \<and>
     - 60 \<le> cons_conf_idx w \<and> cons_conf_idx w \<le> 0 \<and>
     0 \<le> euribor3m w \<and> euribor3m w \<le> 10 \<and>
     4900 \<le> nr_employed w \<and> nr_employed w \<le> 5300"

text \<open>The value each widget shows before the user touches it.\<close>

definition initial_widgets :: widgets where
  "initial_widgets =
    \<lparr>age = 35, job = ''admin.'', marital = ''married'', education = ''basic.4y'',
     default_credit = ''no'', housing = ''no'', loan = ''no'', contact = ''cellular'',
     month = ''jan'', day_of_week = ''mon'', campaign = 2, pdays = 999, previous = 0,
     poutcome = ''nonexistent'', emp_var_rate = 1.1, cons_price_idx = 93.994,
     cons_conf_idx = - 36.4, euribor3m = 4.857, nr_employed = 5191\<rparr>"

text \<open>The names of the columns: those of the dictionary, and the engineered ones.\<close>

definition raw_columns :: "string list" where
  "raw_columns =
    [''age'', ''job'', ''marital'', ''education'', ''default'', ''housing'', ''loan'',
     ''contact'', ''month'', ''day_of_week'', ''campaign'', ''pdays'', ''previous'',
     ''poutcome'', ''emp.var.rate'', ''cons.price.idx'', ''cons.conf.idx'', ''euribor3m'',
     ''nr.employed'']"

definition derived_columns :: "string list" where
  "derived_columns = [''was_previously_contacted'', ''campaign_successful'', ''poutcome_success'']"

text \<open>The three engineered columns of a frame, in the order the spec lists them.\<close>

definition derived_features :: "frame \<Rightarrow> (exn + cell) \<times> (exn + cell) \<times> (exn + cell)" where
  "derived_features df =
    (col df ''was_previously_contacted'', col df ''campaign_successful'',
     col df ''poutcome_success'')"

subsection \<open>The page, the pipeline and the world of one run\<close>

text \<open>
  Streamlit runs the script from top to bottom on every interaction. What one run does
  is recorded as a trace: the elements it puts on the main page, in order, and the calls
  it makes to the pipeline. Layout (the two columns) and decoration (emoji, markdown
  markup, the long texts of the recommendations) are left out of the element texts; the
  sidebar is where the widget values come from and is not part of the trace.

  A probability that comes back from the pipeline is a numpy scalar: a float64 with a
  real value, a float32, or not-a-number.
\<close>

datatype number = Float64 real | Float32 real | NaN

datatype event =
    St_title string
  | St_markdown string
  | St_subheader string
  | St_profile "cell list"
  | St_button string
  | St_spinner string
  | St_success string
  | St_balloons
  | St_error string
  | St_warning string
  | St_info string
  | St_metric string number
  | St_progress real
  | Call_predict frame
  | Call_predict_proba frame

type_synonym trace = "event list"

text \<open>
  The pipeline is opaque. Its two operations are taken as the script uses them:
  \<open>predict m df\<close> is \<^verbatim>\<open>model.predict(input_df)[0]\<close> and \<open>predict_proba m df\<close> is
  \<^verbatim>\<open>model.predict_proba(input_df)[0, 1]\<close>; either may raise.
\<close>

record model =
  predict :: "frame \<Rightarrow> exn + int"
  predict_proba :: "frame \<Rightarrow> exn + number"

text \<open>
  The file system as \<^verbatim>\<open>load_model\<close> meets it: whether a path exists
  (\<^verbatim>\<open>os.path.exists\<close>) and what \<^verbatim>\<open>joblib.load\<close> does with a path. A load that
  does not raise yields the object that was stored, which is a pipeline or \<^verbatim>\<open>None\<close>.
\<close>

record filesystem =
  path_exists :: "string \<Rightarrow> bool"
  joblib_load :: "string \<Rightarrow> exn + model option"

text \<open>
  The world of one run: the file system, what \<^verbatim>\<open>st.cache_resource\<close> holds for
  \<^verbatim>\<open>load_model\<close> when the run starts, what the sidebar widgets return and whether the
  button was pressed.

  The decorator records the first call of \<^verbatim>\<open>load_model\<close> in the process, the messages
  it showed and the value it returned, and every later call replays the messages and
  returns the value without running the body. Both are what the body does on the file
  system of that first call, so the record is kept as that file system: \<open>cached\<close> is
  \<open>None\<close> while nothing is recorded.
\<close>

record env =
  fs :: filesystem
  cached :: "filesystem option"
  widget_values :: widgets
  button_clicked :: bool

subsection \<open>\<^verbatim>\<open>load_model\<close>\<close>

definition MODEL_PATH :: string where
  "MODEL_PATH = ''final_bank_marketing_model.joblib''"

text \<open>
  Lines 34 to 46, the body of the function: it returns \<^verbatim>\<open>None\<close> after its messages,
  or whatever \<^verbatim>\<open>joblib.load\<close> yields.
\<close>

definition load_model_body :: "filesystem \<Rightarrow> trace \<Rightarrow> trace \<times> model option" where
  "load_model_body files tr =
    (if \<not> path_exists files MODEL_PATH then
       (tr @ [St_error ('' Model file not found: '' @ MODEL_PATH),
              St_info ''Please run the Jupyter notebook first to train and save the model.''],
        None)
     else
       (case joblib_load files MODEL_PATH of
          Inr m \<Rightarrow> (tr, m)
        | Inl e \<Rightarrow> (tr @ [St_error (''Error loading model: '' @ str_exn e)], None)))"

text \<open>
  Line 33, the decorated function: the body on the file system of the run when nothing
  is recorded, and the recorded call again when something is. \<open>cache_after\<close> is what the
  decorator holds once the call has returned.
\<close>

definition load_model :: "env \<Rightarrow> trace \<Rightarrow> trace \<times> model option" where
  "load_model env tr =
    load_model_body (case cached env of None \<Rightarrow> fs env | Some first \<Rightarrow> first) tr"

definition cache_after :: "env \<Rightarrow> filesystem option" where
  "cache_after env = Some (case cached env of None \<Rightarrow> fs env | Some first \<Rightarrow> first)"

subsection \<open>The recommendation\<close>

text \<open>
  Lines 204 to 224: the chain \<^verbatim>\<open>if probability > 0.7 ... elif probability > 0.4 ... else\<close>
  chooses one of three blocks, and each block is one element.
\<close>

datatype priority = HIGH | MEDIUM | LOW

definition tier :: "real \<Rightarrow> priority" where
  "tier probability =
    (if probability > 0.7 then HIGH
     else if probability > 0.4 then MEDIUM
     else LOW)"

fun recommendation :: "priority \<Rightarrow> event" where
  "recommendation HIGH = St_success ''HIGH PRIORITY CLIENT''"
| "recommendation MEDIUM = St_warning ''MEDIUM PRIORITY CLIENT''"
| "recommendation LOW = St_info ''LOW PRIORITY CLIENT''"

text \<open>
  The bands as section 4.4 of the spec words them, to compare with \<open>tier\<close>: above 0.7,
  above 0.4 and at most 0.7, at most 0.4.
\<close>

fun in_band :: "priority \<Rightarrow> real \<Rightarrow> bool" where
  "in_band HIGH p = (p > 0.7)"
| "in_band MEDIUM p = (0.4 < p \<and> p \<le> 0.7)"
| "in_band LOW p = (p \<le> 0.4)"

subsection \<open>\<^verbatim>\<open>main\<close>\<close>

text \<open>
  The columns the profile summary prints (lines 156 to 172), in the order it reads them,
  and the reading itself: the first missing column raises.
\<close>

definition profile_columns :: "string list" where
  "profile_columns =
    [''age'', ''job'', ''education'', ''marital'', ''housing'', ''loan'', ''default'',
     ''campaign'', ''previous'', ''poutcome'']"

fun cols :: "frame \<Rightarrow> string list \<Rightarrow> exn + cell list" where
  "cols df [] = Inr []"
| "cols df (k # ks) =
    (case col df k of
       Inl e \<Rightarrow> Inl e
     | Inr c \<Rightarrow> (case cols df ks of Inl e \<Rightarrow> Inl e | Inr cs \<Rightarrow> Inr (c # cs)))"

text \<open>
  \<^verbatim>\<open>st.progress\<close> (line 198) draws a Python float between 0 and 1 and raises on
  anything else: a float64 outside that range, not-a-number, and a float32, which is no
  Python float. The messages are shortened; Streamlit's also print the value.
\<close>

fun st_progress :: "number \<Rightarrow> exn + real" where
  "st_progress (Float64 p) =
    (if 0 \<le> p \<and> p \<le> 1 then Inr p
     else Inl (Raised ''Progress Value has invalid value [0.0, 1.0]''))"
| "st_progress (Float32 p) = Inl (Raised ''Progress Value has invalid type'')"
| "st_progress NaN = Inl (Raised ''Progress Value has invalid value [0.0, 1.0]'')"

text \<open>
  The body of the \<^verbatim>\<open>try\<close> (lines 182 to 224): both calls under the spinner, then
  the verdict, the metric, the progress bar and the recommendation. What was put on the
  page before an exception stays there; the comparisons of lines 204 and 211 are reached
  only with a probability that \<^verbatim>\<open>st.progress\<close> has drawn.
\<close>

definition predict_and_show :: "model \<Rightarrow> frame \<Rightarrow> trace \<Rightarrow> trace \<times> (exn + unit)" where
  "predict_and_show m input_df tr =
    (let tr = tr @ [St_spinner ''Analyzing client profile...'', Call_predict input_df] in
     (case predict m input_df of
        Inl e \<Rightarrow> (tr, Inl e)
      | Inr prediction \<Rightarrow>
         (let tr = tr @ [Call_predict_proba input_df] in
          (case predict_proba m input_df of
             Inl e \<Rightarrow> (tr, Inl e)
           | Inr probability \<Rightarrow>
              (let tr = tr @
                     (if prediction = 1 then [St_success ''LIKELY TO SUBSCRIBE'', St_balloons]
                      else [St_error ''UNLIKELY TO SUBSCRIBE'']) @
                     [St_metric ''Subscription Probability'' probability] in
               (case st_progress probability of
                  Inl e \<Rightarrow> (tr, Inl e)
                | Inr p \<Rightarrow>
                   (tr @
                    [St_progress p,
                     St_markdown ''---'',
                     St_subheader ''Recommendation'',
                     recommendation (tier p)],
                    Inr ())))))))"

text \<open>The handler of lines 226 to 228.\<close>

definition prediction_error :: "exn \<Rightarrow> trace" where
  "prediction_error e =
    [St_error (''Prediction error: '' @ str_exn e),
     St_info ''Please check that all required features are provided.'']"

definition header :: trace where
  "header = [St_title ''Bank Term Deposit Subscription Predictor'', St_markdown ''---'']"

definition footer :: trace where
  "footer =
    [St_markdown ''---'',
     St_markdown ''Bank Marketing Prediction System | ADA 442 Statistical Learning Project'']"

text \<open>
  A run of \<^verbatim>\<open>main\<close> ends in one of three ways: it reaches the end of the script,
  \<^verbatim>\<open>st.stop()\<close> halts it, or an exception that nothing catches leaves it.
\<close>

datatype outcome = Finished | Stopped | Uncaught exn

definition main :: "env \<Rightarrow> trace \<Rightarrow> trace \<times> outcome" where
  "main env tr =
    (case load_model env (tr @ header) of
       (tr, None) \<Rightarrow> (tr, Stopped)
     | (tr, Some m) \<Rightarrow>
        (case get_user_input (widget_values env) of
           Inl e \<Rightarrow> (tr, Uncaught e)
         | Inr input_df \<Rightarrow>
            (let tr = tr @ [St_subheader ''Client Profile Summary''] in
             (case cols input_df profile_columns of
                Inl e \<Rightarrow> (tr, Uncaught e)
              | Inr summary \<Rightarrow>
                 (let tr = tr @ [St_profile summary, St_subheader ''Prediction'',
                                 St_button ''Predict Subscription''];
                      tr = (if button_clicked env then
                              (case predict_and_show m input_df tr of
                                 (tr, Inr u) \<Rightarrow> tr
                               | (tr, Inl e) \<Rightarrow> tr @ prediction_error e)
                            else tr)
                  in (tr @ footer, Finished))))))"

text \<open>
  The events of a prediction step: the button that triggers it, the spinner and the two
  calls to the pipeline.
\<close>

fun prediction_step :: "event \<Rightarrow> bool" where
  "prediction_step (St_button s) = True"
| "prediction_step (St_spinner s) = True"
| "prediction_step (Call_predict df) = True"
| "prediction_step (Call_predict_proba df) = True"
| "prediction_step ev = False"

subsection \<open>The script and its reruns\<close>




definition next_run :: "env \<Rightarrow> widgets \<Rightarrow> bool \<Rightarrow> env" where
  "next_run env w b = env\<lparr>cached := cache_after env, widget_values := w, button_clicked := b\<rparr>"

subsection \<open>Worlds for the examples\<close>


definition answering_model :: model where
  "answering_model = \<lparr>predict = (\<lambda>df. Inr 1), predict_proba = (\<lambda>df. Inr (Float64 0.9))\<rparr>"


definition fs_missing :: filesystem where
  "fs_missing =
    \<lparr>path_exists = (\<lambda>p. False), joblib_load = (\<lambda>p. Inl (Raised ''no such file''))\<rparr>"

definition fs_unreadable :: filesystem where
  "fs_unreadable =
    \<lparr>path_exists = (\<lambda>p. True), joblib_load = (\<lambda>p. Inl (Raised ''invalid load key''))\<rparr>"

definition fs_none :: filesystem where
  "fs_none = \<lparr>path_exists = (\<lambda>p. True), joblib_load = (\<lambda>p. Inr None)\<rparr>"

definition fs_holding :: "model \<Rightarrow> filesystem" where
  "fs_holding m = \<lparr>path_exists = (\<lambda>p. True), joblib_load = (\<lambda>p. Inr (Some m))\<rparr>"

text \<open>
  Worlds of a first run in a process, the button pressed on the initial widget values,
  one for each file system.
\<close>

definition first_run :: "filesystem \<Rightarrow> env" where
  "first_run files =
    \<lparr>fs = files, cached = None, widget_values = initial_widgets, button_clicked = True\<rparr>"

definition env_missing :: env where
  "env_missing = first_run fs_missing"

definition env_unreadable :: env where
  "env_unreadable = first_run fs_unreadable"

definition env_none :: env where
  "env_none = first_run fs_none"


definition env_answering :: env where
  "env_answering = first_run (fs_holding answering_model)"


text \<open>
  The artifact was missing at the first run and is there, readable, at the next one: the
  cache still holds the first call.
\<close>

definition env_restored :: env where
  "env_restored =
    (next_run env_missing initial_widgets True)\<lparr>fs := fs_holding answering_model\<rparr>"


subsection \<open>What \<^verbatim>\<open>get_user_input\<close> returns\<close>

lemma get_user_input_frame:
  "get_user_input w =
    Inr (data w @
      [(''was_previously_contacted'', IntC (if pdays w \<noteq> 999 then 1 else 0)),
       (''campaign_successful'', IntC (if campaign w < 5 then 1 else 0)),
       (''poutcome_success'', IntC (if poutcome w = ''success'' then 1 else 0))])"
  by (simp add: get_user_input_def data_def col_def astype_int_def)

lemma map_fst_data: "map fst (data w) = raw_columns"
  by (simp add: data_def raw_columns_def)

text \<open>
  Claim C1. For every input record the column \<^verbatim>\<open>campaign_successful\<close> of the frame
  that \<^verbatim>\<open>get_user_input\<close> returns is 1 when \<^verbatim>\<open>campaign\<close> is strictly below 5 and
  0 when it is 5 or more: the column flags a low number of contacts.
\<close>

theorem campaign_successful_low_contact_count:
  "\<exists>df. get_user_input w = Inr df \<and>
     col df ''campaign_successful'' = Inr (IntC (if campaign w < 5 then 1 else 0))"
  by (simp add: get_user_input_frame col_def data_def)

text \<open>
  Claim C2. For every input record the column \<^verbatim>\<open>was_previously_contacted\<close> is 1 when
  \<^verbatim>\<open>pdays\<close> differs from 999 and 0 when it is 999; and with pdays 999, campaign 2 and
  poutcome "nonexistent", whatever the other fields, the three engineered columns are
  0, 1 and 0.
\<close>

theorem was_previously_contacted_sentinel:
  "(\<exists>df. get_user_input w = Inr df \<and>
      col df ''was_previously_contacted'' = Inr (IntC (if pdays w \<noteq> 999 then 1 else 0))) \<and>
   (\<exists>df. get_user_input (w\<lparr>pdays := 999, campaign := 2, poutcome := ''nonexistent''\<rparr>) = Inr df \<and>
      derived_features df = (Inr (IntC 0), Inr (IntC 1), Inr (IntC 0)))"
  by (simp add: get_user_input_frame col_def data_def derived_features_def)

text \<open>
  Claim C3. For every input record the column \<^verbatim>\<open>poutcome_success\<close> is 1 exactly when
  \<^verbatim>\<open>poutcome\<close> is the string "success", and 0 otherwise; and with pdays 5, campaign 7
  and poutcome "success", whatever the other fields, the three engineered columns are
  1, 0 and 1.
\<close>

theorem poutcome_success_iff:
  "(\<exists>df. get_user_input w = Inr df \<and>
      (col df ''poutcome_success'' = Inr (IntC 1) \<longleftrightarrow> poutcome w = ''success'') \<and>
      col df ''poutcome_success'' = Inr (IntC (if poutcome w = ''success'' then 1 else 0))) \<and>
   (\<exists>df. get_user_input (w\<lparr>pdays := 5, campaign := 7, poutcome := ''success''\<rparr>) = Inr df \<and>
      derived_features df = (Inr (IntC 1), Inr (IntC 0), Inr (IntC 1)))"
  by (simp add: get_user_input_frame col_def data_def derived_features_def)

subsection \<open>The recommendation bands\<close>

text \<open>
  Claim C4. For every probability, and so for every one between 0 and 1, the tier is HIGH
  exactly when the probability is above 0.7, MEDIUM exactly when it is above 0.4 and at
  most 0.7, and LOW exactly when it is at most 0.4. Both comparisons are strict, so 0.7
  itself is MEDIUM and 0.4 itself is LOW.
\<close>

theorem tier_cutoffs:
  "(tier p = HIGH \<longleftrightarrow> p > 0.7) \<and>
   (tier p = MEDIUM \<longleftrightarrow> 0.4 < p \<and> p \<le> 0.7) \<and>
   (tier p = LOW \<longleftrightarrow> p \<le> 0.4) \<and>
   tier 0.7 = MEDIUM \<and> tier 0.4 = LOW"
  by (auto simp add: tier_def)

text \<open>
  Claim C5. The tiers partition the probabilities, those between 0 and 1 among them: every
  probability lies in exactly one of the three bands of the spec, the tier the code
  assigns is that band, and it assigns no other.
\<close>

theorem tier_partition:
  "(\<exists>!t. in_band t p) \<and> in_band (tier p) p \<and> (\<exists>!t. tier p = t)"
proof -
  have pick: "in_band (tier p) p"
    by (simp add: tier_def)
  have only: "t = tier p" if "in_band t p" for t
    using that by (cases t) (auto simp add: tier_def)
  from pick only show ?thesis
    by blast
qed

subsection \<open>Building the record never fails\<close>

text \<open>
  Claim C9. \<^verbatim>\<open>get_user_input\<close> is a function of the widget values, and for every
  record of values within the bounds the widgets enforce it returns a frame, with the
  nineteen raw columns and the three engineered ones, and raises nothing.
\<close>

theorem get_user_input_total:
  "in_bounds w \<Longrightarrow>
     \<exists>df. get_user_input w = Inr df \<and> map fst df = raw_columns @ derived_columns"
  by (simp add: get_user_input_frame map_fst_data derived_columns_def)

theorem get_user_input_total_witness:
  "in_bounds initial_widgets \<and>
   (\<exists>df. get_user_input initial_widgets = Inr df \<and> map fst df = raw_columns @ derived_columns)"
proof -
  have b: "in_bounds initial_widgets"
    by (simp add: in_bounds_def initial_widgets_def job_choices_def marital_choices_def
        education_choices_def yes_no_choices_def contact_choices_def month_choices_def
        day_of_week_choices_def poutcome_choices_def)
  from b get_user_input_total [OF b] show ?thesis
    by blast
qed

subsection \<open>The raw fields pass through\<close>

text \<open>
  Claim C10. The frame that \<^verbatim>\<open>get_user_input\<close> returns holds each of the nineteen raw
  fields as the widget gave it (its first nineteen columns are the dictionary), the three
  engineered columns are all that is added, and the engineered columns depend on
  \<^verbatim>\<open>pdays\<close>, \<^verbatim>\<open>campaign\<close> and \<^verbatim>\<open>poutcome\<close> only: two inputs that agree on these
  three have the same engineered columns, whatever their other fields.
\<close>

theorem get_user_input_frame_effect:
  "(\<exists>df. get_user_input w = Inr df \<and>
      take 19 df = data w \<and>
      map fst df = raw_columns @ derived_columns \<and>
      col df ''age'' = Inr (IntC (age w)) \<and>
      col df ''job'' = Inr (StrC (job w)) \<and>
      col df ''marital'' = Inr (StrC (marital w)) \<and>
      col df ''education'' = Inr (StrC (education w)) \<and>
      col df ''default'' = Inr (StrC (default_credit w)) \<and>
      col df ''housing'' = Inr (StrC (housing w)) \<and>
      col df ''loan'' = Inr (StrC (loan w)) \<and>
      col df ''contact'' = Inr (StrC (contact w)) \<and>
      col df ''month'' = Inr (StrC (month w)) \<and>
      col df ''day_of_week'' = Inr (StrC (day_of_week w)) \<and>
      col df ''campaign'' = Inr (IntC (campaign w)) \<and>
      col df ''pdays'' = Inr (IntC (pdays w)) \<and>
      col df ''previous'' = Inr (IntC (previous w)) \<and>
      col df ''poutcome'' = Inr (StrC (poutcome w)) \<and>
      col df ''emp.var.rate'' = Inr (FloatC (emp_var_rate w)) \<and>
      col df ''cons.price.idx'' = Inr (FloatC (cons_price_idx w)) \<and>
      col df ''cons.conf.idx'' = Inr (FloatC (cons_conf_idx w)) \<and>
      col df ''euribor3m'' = Inr (FloatC (euribor3m w)) \<and>
      col df ''nr.employed'' = Inr (FloatC (nr_employed w))) \<and>
   (pdays w = pdays w' \<and> campaign w = campaign w' \<and> poutcome w = poutcome w' \<longrightarrow>
      (\<exists>df df'. get_user_input w = Inr df \<and> get_user_input w' = Inr df' \<and>
         derived_features df = derived_features df'))"
proof -
  let ?df = "data w @
      [(''was_previously_contacted'', IntC (if pdays w \<noteq> 999 then 1 else 0)),
       (''campaign_successful'', IntC (if campaign w < 5 then 1 else 0)),
       (''poutcome_success'', IntC (if poutcome w = ''success'' then 1 else 0))]"
  have len: "length (data w) = 19"
    by (simp add: data_def)
  have raw: "take 19 ?df = data w"
    using len by simp
  have names: "map fst ?df = raw_columns @ derived_columns"
    by (simp add: map_fst_data derived_columns_def)
  have cells: "col ?df ''age'' = Inr (IntC (age w))"
      "col ?df ''job'' = Inr (StrC (job w))"
      "col ?df ''marital'' = Inr (StrC (marital w))"
      "col ?df ''education'' = Inr (StrC (education w))"
      "col ?df ''default'' = Inr (StrC (default_credit w))"
      "col ?df ''housing'' = Inr (StrC (housing w))"
      "col ?df ''loan'' = Inr (StrC (loan w))"
      "col ?df ''contact'' = Inr (StrC (contact w))"
      "col ?df ''month'' = Inr (StrC (month w))"
      "col ?df ''day_of_week'' = Inr (StrC (day_of_week w))"
      "col ?df ''campaign'' = Inr (IntC (campaign w))"
      "col ?df ''pdays'' = Inr (IntC (pdays w))"
      "col ?df ''previous'' = Inr (IntC (previous w))"
      "col ?df ''poutcome'' = Inr (StrC (poutcome w))"
      "col ?df ''emp.var.rate'' = Inr (FloatC (emp_var_rate w))"
      "col ?df ''cons.price.idx'' = Inr (FloatC (cons_price_idx w))"
      "col ?df ''cons.conf.idx'' = Inr (FloatC (cons_conf_idx w))"
      "col ?df ''euribor3m'' = Inr (FloatC (euribor3m w))"
      "col ?df ''nr.employed'' = Inr (FloatC (nr_employed w))"
    by (simp_all add: col_def data_def)
  have through: "\<exists>df. get_user_input w = Inr df \<and>
      take 19 df = data w \<and>
      map fst df = raw_columns @ derived_columns \<and>
      col df ''age'' = Inr (IntC (age w)) \<and>
      col df ''job'' = Inr (StrC (job w)) \<and>
      col df ''marital'' = Inr (StrC (marital w)) \<and>
      col df ''education'' = Inr (StrC (education w)) \<and>
      col df ''default'' = Inr (StrC (default_credit w)) \<and>
      col df ''housing'' = Inr (StrC (housing w)) \<and>
      col df ''loan'' = Inr (StrC (loan w)) \<and>
      col df ''contact'' = Inr (StrC (contact w)) \<and>
      col df ''month'' = Inr (StrC (month w)) \<and>
      col df ''day_of_week'' = Inr (StrC (day_of_week w)) \<and>
      col df ''campaign'' = Inr (IntC (campaign w)) \<and>
      col df ''pdays'' = Inr (IntC (pdays w)) \<and>
      col df ''previous'' = Inr (IntC (previous w)) \<and>
      col df ''poutcome'' = Inr (StrC (poutcome w)) \<and>
      col df ''emp.var.rate'' = Inr (FloatC (emp_var_rate w)) \<and>
      col df ''cons.price.idx'' = Inr (FloatC (cons_price_idx w)) \<and>
      col df ''cons.conf.idx'' = Inr (FloatC (cons_conf_idx w)) \<and>
      col df ''euribor3m'' = Inr (FloatC (euribor3m w)) \<and>
      col df ''nr.employed'' = Inr (FloatC (nr_employed w))"
    by (rule exI [of _ ?df], intro conjI) (fact get_user_input_frame raw names cells)+
  have derived: "derived_features (data v @
      [(''was_previously_contacted'', IntC (if pdays v \<noteq> 999 then 1 else 0)),
       (''campaign_successful'', IntC (if campaign v < 5 then 1 else 0)),
       (''poutcome_success'', IntC (if poutcome v = ''success'' then 1 else 0))]) =
      (Inr (IntC (if pdays v \<noteq> 999 then 1 else 0)),
       Inr (IntC (if campaign v < 5 then 1 else 0)),
       Inr (IntC (if poutcome v = ''success'' then 1 else 0)))" for v
    by (simp add: derived_features_def col_def data_def)
  have same: "pdays w = pdays w' \<and> campaign w = campaign w' \<and> poutcome w = poutcome w' \<longrightarrow>
      (\<exists>df df'. get_user_input w = Inr df \<and> get_user_input w' = Inr df' \<and>
         derived_features df = derived_features df')"
  proof
    assume eq: "pdays w = pdays w' \<and> campaign w = campaign w' \<and> poutcome w = poutcome w'"
    have "derived_features ?df = (Inr (IntC (if pdays w \<noteq> 999 then 1 else 0)),
       Inr (IntC (if campaign w < 5 then 1 else 0)),
       Inr (IntC (if poutcome w = ''success'' then 1 else 0)))"
      by (rule derived)
    also have "\<dots> = (Inr (IntC (if pdays w' \<noteq> 999 then 1 else 0)),
       Inr (IntC (if campaign w' < 5 then 1 else 0)),
       Inr (IntC (if poutcome w' = ''success'' then 1 else 0)))"
      using eq by simp
    also have "\<dots> = derived_features (data w' @
      [(''was_previously_contacted'', IntC (if pdays w' \<noteq> 999 then 1 else 0)),
       (''campaign_successful'', IntC (if campaign w' < 5 then 1 else 0)),
       (''poutcome_success'', IntC (if poutcome w' = ''success'' then 1 else 0))])"
      by (simp only: derived)
    finally show "\<exists>df df'. get_user_input w = Inr df \<and> get_user_input w' = Inr df' \<and>
         derived_features df = derived_features df'"
      using get_user_input_frame [of w] get_user_input_frame [of w'] by blast
  qed
  from through same show ?thesis
    by (rule conjI)
qed

theorem get_user_input_frame_effect_witness:
  "pdays initial_widgets = pdays (initial_widgets\<lparr>age := 60, job := ''retired''\<rparr>) \<and>
   campaign initial_widgets = campaign (initial_widgets\<lparr>age := 60, job := ''retired''\<rparr>) \<and>
   poutcome initial_widgets = poutcome (initial_widgets\<lparr>age := 60, job := ''retired''\<rparr>) \<and>
   (\<exists>df. get_user_input (initial_widgets\<lparr>age := 60, job := ''retired''\<rparr>) = Inr df \<and>
      col df ''age'' = Inr (IntC 60) \<and> col df ''job'' = Inr (StrC ''retired'')) \<and>
   (\<exists>df df'. get_user_input initial_widgets = Inr df \<and>
      get_user_input (initial_widgets\<lparr>age := 60, job := ''retired''\<rparr>) = Inr df' \<and>
      derived_features df = derived_features df')"
proof -
  let ?w' = "initial_widgets\<lparr>age := 60, job := ''retired''\<rparr>"
  note effect = get_user_input_frame_effect [of initial_widgets ?w']
  have same: "pdays initial_widgets = pdays ?w' \<and> campaign initial_widgets = campaign ?w' \<and>
      poutcome initial_widgets = poutcome ?w'"
    by simp
  from effect have "pdays initial_widgets = pdays ?w' \<and> campaign initial_widgets = campaign ?w' \<and>
      poutcome initial_widgets = poutcome ?w' \<longrightarrow>
      (\<exists>df df'. get_user_input initial_widgets = Inr df \<and> get_user_input ?w' = Inr df' \<and>
         derived_features df = derived_features df')"
    by (rule conjunct2)
  with same have derived: "\<exists>df df'. get_user_input initial_widgets = Inr df \<and>
      get_user_input ?w' = Inr df' \<and> derived_features df = derived_features df'"
    by (rule rev_mp)
  from get_user_input_frame_effect [of ?w' ?w']
  obtain df where "get_user_input ?w' = Inr df" "col df ''age'' = Inr (IntC (age ?w'))"
      "col df ''job'' = Inr (StrC (job ?w'))"
    by blast
  then have raw: "\<exists>df. get_user_input ?w' = Inr df \<and>
      col df ''age'' = Inr (IntC 60) \<and> col df ''job'' = Inr (StrC ''retired'')"
    by simp
  from same raw derived show ?thesis
    by simp
qed

subsection \<open>Loading the pipeline\<close>

lemma snd_load_model_body:
  "snd (load_model_body files tr) =
    (if path_exists files MODEL_PATH
     then (case joblib_load files MODEL_PATH of Inl e \<Rightarrow> None | Inr m \<Rightarrow> m)
     else None)"
  by (simp add: load_model_body_def split: sum.split)

lemma snd_load_model:
  "snd (load_model env tr) = snd (load_model env tr')"
  by (simp add: load_model_def snd_load_model_body)

lemma fst_load_model_absent:
  "snd (load_model env tr) = None \<Longrightarrow> \<exists>msgs. fst (load_model env tr) = tr @ msgs \<and>
     filter prediction_step msgs = []"
  by (auto simp add: load_model_def load_model_body_def split: sum.splits if_splits)

lemma load_model_present:
  "snd (load_model env tr0) = Some m \<Longrightarrow> load_model env tr = (tr, Some m)"
  by (auto simp add: load_model_def load_model_body_def split: sum.splits if_splits)

text \<open>
  Claim C7, as the spec states it, fails in two ways. A call that runs the body returns
  \<^verbatim>\<open>None\<close> in a third case, with no message at all: the artifact exists, the load
  does not raise, and what was stored is \<^verbatim>\<open>None\<close>. And a call that finds a recorded
  first call returns that call's \<^verbatim>\<open>None\<close>, with its messages, although the artifact
  is there by now and loads.
\<close>

theorem load_model_absent_without_failure:
  "cached env_none = None \<and>
   path_exists (fs env_none) MODEL_PATH \<and>
   joblib_load (fs env_none) MODEL_PATH = Inr None \<and>
   load_model env_none [] = ([], None) \<and>
   path_exists (fs env_restored) MODEL_PATH \<and>
   joblib_load (fs env_restored) MODEL_PATH = Inr (Some answering_model) \<and>
   load_model env_restored [] =
     ([St_error ('' Model file not found: '' @ MODEL_PATH),
       St_info ''Please run the Jupyter notebook first to train and save the model.''],
      None)"
  by (simp add: env_none_def env_restored_def env_missing_def next_run_def cache_after_def
      first_run_def fs_none_def fs_missing_def fs_holding_def load_model_def
      load_model_body_def)

text \<open>
  Claim C7, amended. A call of \<^verbatim>\<open>load_model\<close> that finds nothing recorded returns
  \<^verbatim>\<open>None\<close> in exactly three cases. When the artifact does not exist at \<open>MODEL_PATH\<close>
  it reports that the file was not found, tells the user to produce it first, and returns
  \<^verbatim>\<open>None\<close>. When the artifact exists and \<^verbatim>\<open>joblib.load\<close> raises, it reports the
  load error with the exception's message and returns \<^verbatim>\<open>None\<close>. When the artifact
  exists and loads, it reports nothing and returns what was loaded, which is \<^verbatim>\<open>None\<close>
  when that is what the artifact holds. A call that finds a recorded first call does what
  that call did, on the file system of that call.
\<close>

theorem load_model_cases:
  "(cached env = None \<longrightarrow>
      (\<not> path_exists (fs env) MODEL_PATH \<longrightarrow>
         load_model env tr =
           (tr @ [St_error ('' Model file not found: '' @ MODEL_PATH),
                  St_info ''Please run the Jupyter notebook first to train and save the model.''],
            None)) \<and>
      (path_exists (fs env) MODEL_PATH \<and> joblib_load (fs env) MODEL_PATH = Inl e \<longrightarrow>
         load_model env tr = (tr @ [St_error (''Error loading model: '' @ str_exn e)], None)) \<and>
      (path_exists (fs env) MODEL_PATH \<and> joblib_load (fs env) MODEL_PATH = Inr loaded \<longrightarrow>
         load_model env tr = (tr, loaded)) \<and>
      (snd (load_model env tr) = None \<longleftrightarrow>
         \<not> path_exists (fs env) MODEL_PATH \<or>
         (\<exists>e. joblib_load (fs env) MODEL_PATH = Inl e) \<or>
         joblib_load (fs env) MODEL_PATH = Inr None)) \<and>
   (cached env = Some first \<longrightarrow>
      load_model env tr = load_model (env\<lparr>fs := first, cached := None\<rparr>) tr)"
  by (cases "joblib_load (fs env) MODEL_PATH")
     (simp_all add: load_model_def load_model_body_def)

theorem load_model_cases_witness:
  "cached env_missing = None \<and>
   \<not> path_exists (fs env_missing) MODEL_PATH \<and>
   load_model env_missing [] =
     ([St_error ('' Model file not found: '' @ MODEL_PATH),
       St_info ''Please run the Jupyter notebook first to train and save the model.''],
      None) \<and>
   cached env_unreadable = None \<and>
   path_exists (fs env_unreadable) MODEL_PATH \<and>
   joblib_load (fs env_unreadable) MODEL_PATH = Inl (Raised ''invalid load key'') \<and>
   load_model env_unreadable [] = ([St_error ''Error loading model: invalid load key''], None) \<and>
   cached env_answering = None \<and>
   path_exists (fs env_answering) MODEL_PATH \<and>
   joblib_load (fs env_answering) MODEL_PATH = Inr (Some answering_model) \<and>
   load_model env_answering [] = ([], Some answering_model) \<and>
   cached env_restored = Some fs_missing \<and>
   load_model env_restored [] = load_model (env_restored\<lparr>fs := fs_missing, cached := None\<rparr>) []"
  using load_model_cases [where env = env_missing and tr = "[]"]
    load_model_cases [where env = env_unreadable and tr = "[]" and e = "Raised ''invalid load key''"]
    load_model_cases [where env = env_answering and tr = "[]" and loaded = "Some answering_model"]
    load_model_cases [where env = env_restored and tr = "[]" and first = fs_missing]
  by (simp add: env_missing_def env_unreadable_def env_answering_def env_restored_def
      next_run_def cache_after_def first_run_def fs_missing_def fs_unreadable_def
      fs_holding_def)

subsection \<open>No pipeline, no prediction\<close>

text \<open>
  Claim C8. Whenever \<^verbatim>\<open>load_model\<close> returns \<^verbatim>\<open>None\<close>, \<^verbatim>\<open>main\<close> stops right after
  it: the run ends with \<^verbatim>\<open>st.stop()\<close>, the page holds what \<^verbatim>\<open>load_model\<close> left on
  it, and the run adds no prediction step, neither the button nor a call to the pipeline.
\<close>

theorem absent_model_stops_before_prediction:
  assumes "snd (load_model env tr0) = None"
  shows "snd (main env tr) = Stopped \<and>
     fst (main env tr) = fst (load_model env (tr @ header)) \<and>
     filter prediction_step (fst (main env tr)) = filter prediction_step tr"
proof -
  from assms have absent: "snd (load_model env (tr @ header)) = None"
    using snd_load_model [of env tr0 "tr @ header"] by simp
  then obtain msgs where msgs: "fst (load_model env (tr @ header)) = (tr @ header) @ msgs"
      "filter prediction_step msgs = []"
    using fst_load_model_absent by blast
  from absent have run: "main env tr = (fst (load_model env (tr @ header)), Stopped)"
    by (cases "load_model env (tr @ header)") (simp add: main_def)
  from run msgs show ?thesis
    by (simp add: header_def)
qed

theorem absent_model_stops_before_prediction_witness:
  "snd (load_model env_missing []) = None \<and>
   snd (main env_missing []) = Stopped \<and>
   filter prediction_step (fst (main env_missing [])) = []"
proof -
  have absent: "snd (load_model env_missing []) = None"
    by (simp add: load_model_def snd_load_model_body env_missing_def first_run_def
        fs_missing_def)
  note halt = absent_model_stops_before_prediction [OF absent, of "[]"]
  from halt have stopped: "snd (main env_missing []) = Stopped"
    by (rule conjunct1)
  from halt have steps: "filter prediction_step (fst (main env_missing [])) =
      filter prediction_step []"
    by (rule conjunct2 [THEN conjunct2])
  from absent stopped steps show ?thesis
    by simp
qed

subsection \<open>A prediction that raises\<close>

lemma cols_built:
  "get_user_input w = Inr df \<Longrightarrow>
     cols df profile_columns =
       Inr [IntC (age w), StrC (job w), StrC (education w), StrC (marital w),
            StrC (housing w), StrC (loan w), StrC (default_credit w), IntC (campaign w),
            IntC (previous w), StrC (poutcome w)]"
  unfolding get_user_input_frame by (auto simp add: profile_columns_def col_def data_def)


lemma predict_and_show_answers:
  "predict m df = Inr 1 \<Longrightarrow> predict_proba m df = Inr (Float64 (9 / 10)) \<Longrightarrow>
     predict_and_show m df tr =
       (tr @ [St_spinner ''Analyzing client profile...'', Call_predict df,
              Call_predict_proba df, St_success ''LIKELY TO SUBSCRIBE'', St_balloons,
              St_metric ''Subscription Probability'' (Float64 (9 / 10)), St_progress (9 / 10),
              St_markdown ''---'', St_subheader ''Recommendation'',
              St_success ''HIGH PRIORITY CLIENT''], Inr ())"
  by (simp add: predict_and_show_def tier_def)

lemma main_loaded:
  assumes "snd (load_model env tr0) = Some m"
    and "get_user_input (widget_values env) = Inr df"
    and "cols df profile_columns = Inr cs"
  shows "main env tr =
    (let tr1 = tr @ header @
           [St_subheader ''Client Profile Summary'', St_profile cs,
            St_subheader ''Prediction'', St_button ''Predict Subscription''];
         tr2 = (if button_clicked env then
                  (case predict_and_show m df tr1 of
                     (tr', Inr u) \<Rightarrow> tr'
                   | (tr', Inl e) \<Rightarrow> tr' @ prediction_error e)
                else tr1)
     in (tr2 @ footer, Finished))"
  using assms by (simp add: main_def load_model_present [OF assms(1)])




subsection \<open>A prediction that answers\<close>

text \<open>
  For comparison, the run in which the pipeline answers label 1 with probability 0.9 on
  the initial widget values: both calls, the verdict, the probability, and the HIGH
  recommendation.
\<close>

lemma answering_run:
  "main env_answering [] =
    (header @
     [St_subheader ''Client Profile Summary'',
      St_profile [IntC 35, StrC ''admin.'', StrC ''basic.4y'', StrC ''married'', StrC ''no'',
                  StrC ''no'', StrC ''no'', IntC 2, IntC 0, StrC ''nonexistent''],
      St_subheader ''Prediction'',
      St_button ''Predict Subscription'',
      St_spinner ''Analyzing client profile...'',
      Call_predict (data initial_widgets @
        [(''was_previously_contacted'', IntC 0), (''campaign_successful'', IntC 1),
         (''poutcome_success'', IntC 0)]),
      Call_predict_proba (data initial_widgets @
        [(''was_previously_contacted'', IntC 0), (''campaign_successful'', IntC 1),
         (''poutcome_success'', IntC 0)]),
      St_success ''LIKELY TO SUBSCRIBE'',
      St_balloons,
      St_metric ''Subscription Probability'' (Float64 (9 / 10)),
      St_progress (9 / 10),
      St_markdown ''---'',
      St_subheader ''Recommendation'',
      St_success ''HIGH PRIORITY CLIENT''] @
     footer, Finished)"
proof -
  let ?df = "data initial_widgets @
        [(''was_previously_contacted'', IntC 0), (''campaign_successful'', IntC 1),
         (''poutcome_success'', IntC 0)]"
  have loaded: "snd (load_model env_answering []) = Some answering_model"
    by (simp add: load_model_def snd_load_model_body env_answering_def first_run_def
        fs_holding_def)
  have built: "get_user_input (widget_values env_answering) = Inr ?df"
    by (simp add: get_user_input_frame env_answering_def first_run_def)
      (simp add: initial_widgets_def)
  have cs: "cols ?df profile_columns =
      Inr [IntC 35, StrC ''admin.'', StrC ''basic.4y'', StrC ''married'', StrC ''no'',
           StrC ''no'', StrC ''no'', IntC 2, IntC 0, StrC ''nonexistent'']"
    using cols_built [OF built]
    by (simp add: env_answering_def first_run_def initial_widgets_def)
  have shown: "predict_and_show answering_model ?df tr =
      (tr @ [St_spinner ''Analyzing client profile...'', Call_predict ?df,
             Call_predict_proba ?df, St_success ''LIKELY TO SUBSCRIBE'', St_balloons,
             St_metric ''Subscription Probability'' (Float64 (9 / 10)), St_progress (9 / 10),
             St_markdown ''---'', St_subheader ''Recommendation'',
             St_success ''HIGH PRIORITY CLIENT''], Inr ())" for tr
    by (rule predict_and_show_answers) (simp_all add: answering_model_def)
  have clicked: "button_clicked env_answering"
    by (simp add: env_answering_def first_run_def)
  show ?thesis
    using clicked by (simp add: main_loaded [OF loaded built cs] shown)
qed

text \<open>
  And a probability that \<^verbatim>\<open>st.progress\<close> refuses: the verdict and the metric are on
  the page when it raises, and the handler of \<^verbatim>\<open>main\<close> adds its messages after them.
\<close>

lemma progress_raises_after_verdict:
  "predict m df = Inr 1 \<Longrightarrow> predict_proba m df = Inr (Float64 (3 / 2)) \<Longrightarrow>
     predict_and_show m df tr =
       (tr @ [St_spinner ''Analyzing client profile...'', Call_predict df,
              Call_predict_proba df, St_success ''LIKELY TO SUBSCRIBE'', St_balloons,
              St_metric ''Subscription Probability'' (Float64 (3 / 2))],
        Inl (Raised ''Progress Value has invalid value [0.0, 1.0]''))"
  by (simp add: predict_and_show_def)

end
